theory Spec2Isabelle
  imports Complex_Main "HOL-Library.Log_Nat"
begin

section \<open>Python floats\<close>

text \<open>
  The grid coordinate resolver \<^verbatim>\<open>get_maze_coordinates\<close> (src/testing.py and
  src/dynamic/grid_images.py) computes with Python floats, which are IEEE 754 binary64
  numbers. A finite binary64 number is modelled by its exact value, a rational; every
  operation computes the exact rational result and rounds it to the nearest binary64 number,
  ties to the even significand, as the hardware does.

  \<open>fl\<close> is that rounding. A nonzero \<open>r\<close> with \<open>2 ^ k \<le> \<bar>r\<bar> < 2 ^ (k + 1)\<close> is rounded to a
  multiple of \<open>2 ^ (k - 52)\<close> (53 significant bits); below the normal range the spacing
  stays \<open>2 ^ (- 1074)\<close> (subnormal numbers). Overflow, infinities, NaN and the sign of zero
  are outside the model: the resolver rejects every input outside \<open>0..12\<close> before it computes,
  so all its values have a magnitude far below \<open>2 ^ 1024\<close>.
\<close>

type_synonym double = rat

definition pow2 :: "int \<Rightarrow> rat" where
  "pow2 e = (if 0 \<le> e then 2 ^ nat e else 1 / 2 ^ nat (- e))"

text \<open>\<open>ilog2 r\<close> is \<open>\<lfloor>log 2 r\<rfloor>\<close> for \<open>r > 0\<close>, computed on integers.\<close>

definition ilog2 :: "rat \<Rightarrow> int" where
  "ilog2 r = (if 1 \<le> r then bitlen \<lfloor>r\<rfloor> - 1 else - bitlen (\<lceil>1 / r\<rceil> - 1))"

definition round_half_even :: "rat \<Rightarrow> int" where
  "round_half_even r =
     (let f = \<lfloor>r\<rfloor>; d = r - of_int f
      in if d < 1 / 2 then f else if 1 / 2 < d then f + 1 else if even f then f else f + 1)"

definition fl :: "rat \<Rightarrow> double" where
  "fl r = (if r = 0 then 0
           else let e = max (ilog2 \<bar>r\<bar> - 52) (- 1074)
                in of_int (round_half_even (r / pow2 e)) * pow2 e)"

text \<open>
  A float literal such as \<^verbatim>\<open>8.039\<close> denotes \<open>fl 8.039\<close>, the binary64 number nearest to
  the decimal. An \<^verbatim>\<open>int\<close> operand of a mixed operation is converted to a float first.
\<close>

definition float_of_int :: "int \<Rightarrow> double" where
  "float_of_int i = fl (of_int i)"

definition fadd :: "double \<Rightarrow> double \<Rightarrow> double" where
  "fadd a b = fl (a + b)"

definition fsub :: "double \<Rightarrow> double \<Rightarrow> double" where
  "fsub a b = fl (a - b)"

definition fmul :: "double \<Rightarrow> double \<Rightarrow> double" where
  "fmul a b = fl (a * b)"

text \<open>The resolver divides by the constants 8 and 4 only, so no division raises.\<close>

definition fdiv :: "double \<Rightarrow> double \<Rightarrow> double" where
  "fdiv a b = fl (a / b)"

text \<open>
  \<^verbatim>\<open>round(x, n)\<close> on a float, for \<open>n \<ge> 0\<close>: CPython rounds the exact value of \<open>x\<close> to \<open>n\<close>
  decimal places (an exact tie goes to the even digit) and returns the binary64 number
  nearest to that decimal.
\<close>

definition py_round :: "double \<Rightarrow> nat \<Rightarrow> double" where
  "py_round x n = fl (of_int (round_half_even (x * 10 ^ n)) / 10 ^ n)"

section \<open>The grid coordinate resolver\<close>

datatype py_error = ValueError string

text \<open>The dictionary \<^verbatim>\<open>reference_points\<close>, keyed by grid cell.\<close>

definition reference_points :: "int \<times> int \<rightharpoonup> double \<times> double" where
  "reference_points = map_of
     [((1, 1), (fl 8.039, fl 100.98)),
      ((2, 2), (fl 16.336, fl 92.683)),
      ((6, 2), (fl 55.519, fl 92.683)),
      ((6, 6), (fl 55.519, fl 53.50)),
      ((10, 2), (fl 94.702, fl 92.683)),
      ((11, 1), (fl 102.999, fl 100.98)),
      ((2, 10), (fl 16.336, fl 21.973)),
      ((1, 11), (fl 8.039, fl 6.02)),
      ((11, 11), (fl 102.999, fl 6.02))]"

definition Z_HEIGHT :: double where
  "Z_HEIGHT = fl 33.577"

text \<open>
  The block "Special handling for x coordinates": the value of the variable \<^verbatim>\<open>x\<close>
  before rounding.
\<close>

definition x_block :: "int \<Rightarrow> double" where
  "x_block grid_x =
     (if grid_x = 1 then fl 8.039
      else if grid_x = 11 then fl 102.999
      else let x_step = fdiv (fsub (fl 94.702) (fl 16.336)) (float_of_int 8)
           in fadd (fl 16.336) (fmul (float_of_int (grid_x - 2)) x_step))"

text \<open>
  The block "Special handling for y coordinates": the value of the variable \<^verbatim>\<open>y\<close>
  before rounding.
\<close>

definition y_block :: "int \<Rightarrow> double" where
  "y_block grid_y =
     (if grid_y = 1 then fl 100.98
      else if grid_y = 11 then fl 6.02
      else let y_step = fdiv (fsub (fl 92.683) (fl 53.50)) (float_of_int 4)
           in if grid_y \<le> 6 then fsub (fl 92.683) (fmul (float_of_int (grid_y - 2)) y_step)
              else let y_step_lower = fdiv (fsub (fl 53.50) (fl 21.973)) (float_of_int 4)
                   in fsub (fl 53.50) (fmul (float_of_int (grid_y - 6)) y_step_lower))"

text \<open>
  \<^verbatim>\<open>get_maze_coordinates(grid_x, grid_y)\<close> on Python integers. The copy in
  src/dynamic/grid_images.py differs from the one in src/testing.py only by calls of
  \<^verbatim>\<open>log_message\<close>, which appends to a log file and swallows its own failures; the returned
  value and the raised error are the same.
\<close>

definition get_maze_coordinates :: "int \<Rightarrow> int \<Rightarrow> py_error + double \<times> double \<times> double" where
  "get_maze_coordinates grid_x grid_y =
     (if \<not> (0 \<le> grid_x \<and> grid_x \<le> 12 \<and> 0 \<le> grid_y \<and> grid_y \<le> 12)
      then Inl (ValueError ''Grid coordinates must be between 0 and 12'')
      else case reference_points (grid_x, grid_y) of
             Some (x, y) \<Rightarrow> Inr (x, y, Z_HEIGHT)
           | None \<Rightarrow> Inr (py_round (x_block grid_x) 3, py_round (y_block grid_y) 3, Z_HEIGHT))"

section \<open>The rounding is to nearest\<close>

text \<open>
  \<open>ilog2\<close> finds the binade of a positive rational, so \<open>fl r\<close> is an integer significand
  of at most 53 bits times a power of two that is at least \<open>2 ^ (- 1074)\<close>, and no other
  multiple of that power of two is nearer to \<open>r\<close>. (Floats of a smaller magnitude than the
  binade of \<open>r\<close> are further from \<open>r\<close> than the lower end of the binade, which is such a
  multiple.)
\<close>

lemma pow2_pos: "0 < pow2 e"
  by (simp add: pow2_def)

lemma pow2_neg: "pow2 (- e) = 1 / pow2 e"
  by (simp add: pow2_def)

lemma ilog2_bounds_ge1:
  assumes "1 \<le> r"
  shows "pow2 (ilog2 r) \<le> r \<and> r < pow2 (ilog2 r + 1)"
proof -
  let ?f = "\<lfloor>r\<rfloor>"
  from assms have f: "0 < ?f" by simp
  from bitlen_bounds [OF f] have b: "2 ^ nat (bitlen ?f - 1) \<le> ?f" "?f < 2 ^ nat (bitlen ?f)"
    by simp_all
  have b1: "1 \<le> bitlen ?f" using f by (simp add: bitlen_alt_def)
  have "(of_int (2 ^ nat (bitlen ?f - 1)) :: rat) \<le> of_int ?f" using b(1) by (simp only: of_int_le_iff)
  also have "\<dots> \<le> r" by simp
  finally have lo: "pow2 (bitlen ?f - 1) \<le> r" using b1 by (simp add: pow2_def)
  have "?f + 1 \<le> 2 ^ nat (bitlen ?f)" using b(2) by simp
  then have "(of_int (?f + 1) :: rat) \<le> of_int (2 ^ nat (bitlen ?f))" by (simp only: of_int_le_iff)
  moreover have "r < of_int (?f + 1)" by linarith
  ultimately have hi: "r < pow2 (bitlen ?f)" using b1 by (simp add: pow2_def)
  from lo hi assms show ?thesis by (simp add: ilog2_def)
qed

lemma ilog2_bounds_lt1:
  assumes "0 < r" "r < 1"
  shows "pow2 (ilog2 r) \<le> r \<and> r < pow2 (ilog2 r + 1)"
proof -
  let ?c = "\<lceil>1 / r\<rceil>"
  let ?b = "bitlen (?c - 1)"
  from assms have s: "1 < 1 / r" by simp
  then have c: "0 < ?c - 1" by simp
  from bitlen_bounds [OF c] have b: "2 ^ nat (?b - 1) \<le> ?c - 1" "?c - 1 < 2 ^ nat ?b"
    by simp_all
  have b1: "1 \<le> ?b" using c by (simp add: bitlen_alt_def)
  have "?c \<le> 2 ^ nat ?b" using b(2) by simp
  then have "(of_int ?c :: rat) \<le> of_int (2 ^ nat ?b)" by (simp only: of_int_le_iff)
  also have "\<dots> = pow2 ?b" using b1 by (simp add: pow2_def)
  finally have "of_int ?c \<le> pow2 ?b" .
  moreover have "1 / r \<le> of_int ?c" by (rule le_of_int_ceiling)
  ultimately have "1 / r \<le> pow2 ?b" by (rule order_trans [rotated])
  then have lo: "pow2 (- ?b) \<le> r" using assms(1) pow2_pos [of ?b]
    by (simp add: pow2_neg field_simps)
  have "(of_int (2 ^ nat (?b - 1)) :: rat) \<le> of_int (?c - 1)" using b(1) by (simp only: of_int_le_iff)
  moreover have "of_int (?c - 1) < 1 / r" by linarith
  ultimately have "pow2 (?b - 1) < 1 / r" using b1 by (simp add: pow2_def)
  then have "r < 1 / pow2 (?b - 1)" using assms(1) pow2_pos [of "?b - 1"]
    by (simp add: field_simps)
  then have hi: "r < pow2 (- ?b + 1)" using pow2_neg [of "?b - 1"] by simp
  from lo hi assms show ?thesis by (simp add: ilog2_def)
qed

lemma ilog2_bounds: "0 < r \<Longrightarrow> pow2 (ilog2 r) \<le> r \<and> r < pow2 (ilog2 r + 1)"
  using ilog2_bounds_ge1 [of r] ilog2_bounds_lt1 [of r] by (cases "1 \<le> r") simp_all

lemma round_half_even_nearest: "\<bar>of_int (round_half_even r) - r\<bar> \<le> \<bar>of_int k - r\<bar>"
proof -
  let ?f = "\<lfloor>r\<rfloor>"
  have fr: "of_int ?f \<le> r" "r < of_int ?f + 1" by linarith+
  have "k \<le> ?f \<or> ?f + 1 \<le> k" by arith
  then have "(of_int k :: rat) \<le> of_int ?f \<or> (of_int ?f :: rat) + 1 \<le> of_int k"
    by (metis of_int_le_iff of_int_add of_int_1)
  with fr show ?thesis by (auto simp: round_half_even_def Let_def)
qed

lemma round_half_even_error: "\<bar>of_int (round_half_even r) - r\<bar> \<le> 1 / 2"
proof -
  have "of_int \<lfloor>r\<rfloor> \<le> r" "r < of_int \<lfloor>r\<rfloor> + 1" by linarith+
  then show ?thesis by (auto simp: round_half_even_def Let_def)
qed

lemma fl_nonzero:
  "r \<noteq> 0 \<Longrightarrow> fl r = of_int (round_half_even (r / pow2 (max (ilog2 \<bar>r\<bar> - 52) (- 1074))))
      * pow2 (max (ilog2 \<bar>r\<bar> - 52) (- 1074))"
  by (simp add: fl_def Let_def)

lemma abs_scale:
  assumes "0 < (p::rat)"
  shows "\<bar>x - r / p\<bar> * p = \<bar>x * p - r\<bar>"
proof -
  have "\<bar>x - r / p\<bar> * p = \<bar>(x - r / p) * p\<bar>"
    using assms by (simp add: abs_mult)
  also have "(x - r / p) * p = x * p - r"
    using assms by (simp add: field_simps)
  finally show ?thesis .
qed

lemma fl_nearest:
  assumes "r \<noteq> 0"
  shows "\<bar>fl r - r\<bar> \<le> \<bar>of_int k * pow2 (max (ilog2 \<bar>r\<bar> - 52) (- 1074)) - r\<bar>"
proof -
  define e where "e = max (ilog2 \<bar>r\<bar> - 52) (- 1074)"
  have p: "0 < pow2 e" by (rule pow2_pos)
  have "\<bar>of_int (round_half_even (r / pow2 e)) - r / pow2 e\<bar> \<le> \<bar>of_int k - r / pow2 e\<bar>"
    by (rule round_half_even_nearest)
  then have "\<bar>of_int (round_half_even (r / pow2 e)) - r / pow2 e\<bar> * pow2 e
           \<le> \<bar>of_int k - r / pow2 e\<bar> * pow2 e"
    using p by (simp only: mult_le_cancel_right_pos)
  then have "\<bar>of_int (round_half_even (r / pow2 e)) * pow2 e - r\<bar> \<le> \<bar>of_int k * pow2 e - r\<bar>"
    by (simp only: abs_scale [OF p])
  then show ?thesis
    unfolding e_def fl_nonzero [OF assms] .
qed

lemma pow2_powi: "pow2 e = 2 powi e"
  by (simp add: pow2_def power_int_def power_one_over inverse_eq_divide)

lemma pow2_add: "pow2 (a + b) = pow2 a * pow2 b"
  by (simp add: pow2_powi power_int_add)

lemma pow2_mono: "a \<le> b \<Longrightarrow> pow2 a \<le> pow2 b"
  by (simp add: pow2_powi power_int_increasing)

lemma fl_significand:
  assumes "r \<noteq> 0"
  shows "\<exists>m. fl r = of_int m * pow2 (max (ilog2 \<bar>r\<bar> - 52) (- 1074)) \<and> \<bar>m\<bar> \<le> 2 ^ 53"
proof -
  define e where "e = max (ilog2 \<bar>r\<bar> - 52) (- 1074)"
  define m where "m = round_half_even (r / pow2 e)"
  have p: "0 < pow2 e" by (rule pow2_pos)
  from assms have "\<bar>r\<bar> < pow2 (ilog2 \<bar>r\<bar> + 1)" using ilog2_bounds [of "\<bar>r\<bar>"] by simp
  also have "pow2 (ilog2 \<bar>r\<bar> + 1) \<le> pow2 (e + 53)"
    by (rule pow2_mono) (simp add: e_def)
  also have "pow2 (e + 53) = pow2 e * 2 ^ 53"
    by (simp add: pow2_add) (simp add: pow2_def)
  finally have "\<bar>r\<bar> / pow2 e < 2 ^ 53" using p by (simp add: field_simps)
  then have q: "\<bar>r / pow2 e\<bar> < 2 ^ 53" using p by simp
  have "\<bar>of_int m - r / pow2 e\<bar> \<le> 1 / 2"
    unfolding m_def by (rule round_half_even_error)
  with q have "\<bar>of_int m :: rat\<bar> < 2 ^ 53 + 1" by linarith
  then have "(of_int \<bar>m\<bar> :: rat) < of_int (2 ^ 53 + 1)" by simp
  then have "\<bar>m\<bar> < 2 ^ 53 + 1" by (simp only: of_int_less_iff)
  then have "\<bar>m\<bar> \<le> 2 ^ 53" by simp
  moreover have "fl r = of_int m * pow2 e"
    unfolding e_def m_def using assms by (rule fl_nonzero)
  ultimately show ?thesis unfolding e_def by blast
qed

section \<open>Evaluating the model\<close>

text \<open>Floor and ceiling of a quotient of numerals, for the simplifier.\<close>

lemma floor_num_div: "\<lfloor>(numeral a / numeral b :: rat)\<rfloor> = numeral a div numeral b"
  using floor_divide_of_int_eq [of "numeral a" "numeral b", where ?'a = rat] by simp

lemma floor_neg_num_div: "\<lfloor>- (numeral a / numeral b :: rat)\<rfloor> = - numeral a div numeral b"
  using floor_divide_of_int_eq [of "- numeral a" "numeral b", where ?'a = rat] by simp

lemma ceiling_num_div: "\<lceil>(numeral a / numeral b :: rat)\<rceil> = - (- numeral a div numeral b)"
  unfolding ceiling_def floor_neg_num_div ..

lemma ceiling_neg_num_div: "\<lceil>- (numeral a / numeral b :: rat)\<rceil> = - (numeral a div numeral b)"
  unfolding ceiling_def by (simp add: floor_num_div)

lemmas float_eval = fl_def ilog2_def round_half_even_def pow2_def compute_bitlen
  floor_num_div floor_neg_num_div ceiling_num_div ceiling_neg_num_div
  fadd_def fsub_def fmul_def fdiv_def float_of_int_def py_round_def

text \<open>
  The rounding agrees with binary64 on well-known values: \<^verbatim>\<open>0.1\<close> is
  \<open>3602879701896397 / 2 ^ 55\<close>, \<open>2 ^ 53 + 1\<close> is a tie and goes to the even neighbour, and
  \<^verbatim>\<open>round(2.675, 2)\<close> is \<^verbatim>\<open>2.67\<close> while the exact tie \<^verbatim>\<open>round(0.125, 2)\<close> is \<^verbatim>\<open>0.12\<close>.
\<close>

lemma fl_tenth: "fl 0.1 = 3602879701896397 / 36028797018963968"
  by (simp add: float_eval)

lemma fl_tie_even: "fl 9007199254740993 = 9007199254740992" "fl 9007199254740995 = 9007199254740996"
  by (simp_all add: float_eval)

lemma py_round_examples: "py_round (fl 2.675) 2 = fl 2.67" "py_round (fl 0.125) 2 = fl 0.12"
  by (simp_all add: float_eval)

text \<open>The rounded x-coordinate of every column and the rounded y-coordinate of every row.\<close>

lemma x_round_table:
  "py_round (x_block 0) 3 = fl (- 3.256)"
  "py_round (x_block 1) 3 = fl 8.039"
  "py_round (x_block 2) 3 = fl 16.336"
  "py_round (x_block 3) 3 = fl 26.132"
  "py_round (x_block 4) 3 = fl 35.927"
  "py_round (x_block 5) 3 = fl 45.723"
  "py_round (x_block 6) 3 = fl 55.519"
  "py_round (x_block 7) 3 = fl 65.315"
  "py_round (x_block 8) 3 = fl 75.111"
  "py_round (x_block 9) 3 = fl 84.906"
  "py_round (x_block 10) 3 = fl 94.702"
  "py_round (x_block 11) 3 = fl 102.999"
  "py_round (x_block 12) 3 = fl 114.293"
  by (simp_all add: x_block_def float_eval)

lemma y_round_table:
  "py_round (y_block 0) 3 = fl 112.275"
  "py_round (y_block 1) 3 = fl 100.98"
  "py_round (y_block 2) 3 = fl 92.683"
  "py_round (y_block 3) 3 = fl 82.887"
  "py_round (y_block 4) 3 = fl 73.091"
  "py_round (y_block 5) 3 = fl 63.296"
  "py_round (y_block 6) 3 = fl 53.5"
  "py_round (y_block 7) 3 = fl 45.618"
  "py_round (y_block 8) 3 = fl 37.736"
  "py_round (y_block 9) 3 = fl 29.855"
  "py_round (y_block 10) 3 = fl 21.973"
  "py_round (y_block 11) 3 = fl 6.02"
  "py_round (y_block 12) 3 = fl 6.209"
  by (simp_all add: y_block_def float_eval)

lemma x_round_values:
  "py_round (x_block 2) 3 = 1149543804886319 / 70368744177664"
  "py_round (x_block 3) 3 = 7355504091402863 / 281474976710656"
  "py_round (x_block 4) 3 = 5056275744141869 / 140737488355328"
  "py_round (x_block 5) 3 = 3217470090035331 / 70368744177664"
  "py_round (x_block 6) 3 = 7813604615999455 / 140737488355328"
  "py_round (x_block 7) 3 = 1149033631491031 / 17592186044416"
  "py_round (x_block 8) 3 = 5285466743928521 / 70368744177664"
  "py_round (x_block 9) 3 = 1493682148287185 / 17592186044416"
  "py_round (x_block 10) 3 = 416503800694571 / 4398046511104"
  by (simp_all add: x_block_def float_eval)

text \<open>Rounding to 3 decimal places leaves the four fixed boundary values as they are.\<close>

lemma py_round_fixed_values:
  "py_round (fl 8.039) 3 = fl 8.039" "py_round (fl 102.999) 3 = fl 102.999"
  "py_round (fl 100.98) 3 = fl 100.98" "py_round (fl 6.02) 3 = fl 6.02"
  by (simp_all add: float_eval)

lemma in_range_cases:
  "0 \<le> (k::int) \<Longrightarrow> k \<le> 12 \<Longrightarrow>
   k = 0 \<or> k = 1 \<or> k = 2 \<or> k = 3 \<or> k = 4 \<or> k = 5 \<or> k = 6 \<or> k = 7 \<or> k = 8 \<or> k = 9 \<or>
   k = 10 \<or> k = 11 \<or> k = 12"
  by arith

text \<open>The keys of the reference table lie in the accepted domain.\<close>

lemma reference_points_in_range:
  "reference_points (gx, gy) = Some p \<Longrightarrow> 0 \<le> gx \<and> gx \<le> 12 \<and> 0 \<le> gy \<and> gy \<le> 12"
  by (auto simp: reference_points_def split: if_splits)

lemma get_maze_coordinates_ref:
  "reference_points (gx, gy) = Some (x, y) \<Longrightarrow> get_maze_coordinates gx gy = Inr (x, y, Z_HEIGHT)"
  using reference_points_in_range [of gx gy "(x, y)"] by (simp add: get_maze_coordinates_def)

lemma get_maze_coordinates_nonref:
  "0 \<le> gx \<Longrightarrow> gx \<le> 12 \<Longrightarrow> 0 \<le> gy \<Longrightarrow> gy \<le> 12 \<Longrightarrow> reference_points (gx, gy) = None \<Longrightarrow>
   get_maze_coordinates gx gy = Inr (py_round (x_block gx) 3, py_round (y_block gy) 3, Z_HEIGHT)"
  by (simp add: get_maze_coordinates_def)

text \<open>
  Every tabulated value is the value the interpolation branch computes for its cell, so
  one formula describes the result on the whole domain.
\<close>

lemma reference_points_consistent:
  "reference_points (gx, gy) = Some (x, y) \<Longrightarrow>
   x = py_round (x_block gx) 3 \<and> y = py_round (y_block gy) 3"
  by (auto simp: reference_points_def x_round_table y_round_table split: if_splits)

lemma get_maze_coordinates_uniform:
  assumes "0 \<le> gx" "gx \<le> 12" "0 \<le> gy" "gy \<le> 12"
  shows "get_maze_coordinates gx gy =
         Inr (py_round (x_block gx) 3, py_round (y_block gy) 3, Z_HEIGHT)"
proof (cases "reference_points (gx, gy)")
  case None
  with assms show ?thesis by (rule get_maze_coordinates_nonref)
next
  case (Some p)
  obtain x y where p: "p = (x, y)" by (cases p)
  from Some p have "get_maze_coordinates gx gy = Inr (x, y, Z_HEIGHT)"
    by (simp add: get_maze_coordinates_ref)
  moreover from Some p have "x = py_round (x_block gx) 3 \<and> y = py_round (y_block gy) 3"
    by (simp add: reference_points_consistent)
  ultimately show ?thesis by simp
qed

text \<open>
  Outside columns 1 and 11 the x block is the column line; multiplying by the step
  \<^verbatim>\<open>(94.702 - 16.336) / 8\<close>, as the code does, and dividing the product by 8 give the same
  float, because a division by 8 is exact.
\<close>

lemma x_block_interpolation:
  assumes "0 \<le> gx" "gx \<le> 12" "gx \<noteq> 1" "gx \<noteq> 11"
  shows "x_block gx =
         fadd (fl 16.336)
           (fdiv (fmul (float_of_int (gx - 2)) (fsub (fl 94.702) (fl 16.336))) (float_of_int 8))"
  using in_range_cases [OF assms(1,2)] assms(3,4)
  by (elim disjE) (simp_all add: x_block_def float_eval)

lemma y_block_upper:
  assumes "0 \<le> gy" "gy \<le> 6" "gy \<noteq> 1"
  shows "y_block gy =
         fsub (fl 92.683)
           (fdiv (fmul (float_of_int (gy - 2)) (fsub (fl 92.683) (fl 53.50))) (float_of_int 4))"
proof -
  from assms have "gy = 0 \<or> gy = 2 \<or> gy = 3 \<or> gy = 4 \<or> gy = 5 \<or> gy = 6" by arith
  then show ?thesis by (elim disjE) (simp_all add: y_block_def float_eval)
qed

lemma y_block_lower:
  assumes "6 < gy" "gy \<le> 12" "gy \<noteq> 11"
  shows "y_block gy =
         fsub (fl 53.50)
           (fdiv (fmul (float_of_int (gy - 6)) (fsub (fl 53.50) (fl 21.973))) (float_of_int 4))"
proof -
  from assms have "gy = 7 \<or> gy = 8 \<or> gy = 9 \<or> gy = 10 \<or> gy = 12" by arith
  then show ?thesis by (elim disjE) (simp_all add: y_block_def float_eval)
qed

lemma x_round_mono:
  assumes "2 \<le> x1" "x1 \<le> x2" "x2 \<le> 10"
  shows "py_round (x_block x1) 3 \<le> py_round (x_block x2) 3"
proof -
  from assms have
    "x1 = 2 \<or> x1 = 3 \<or> x1 = 4 \<or> x1 = 5 \<or> x1 = 6 \<or> x1 = 7 \<or> x1 = 8 \<or> x1 = 9 \<or> x1 = 10"
    "x2 = 2 \<or> x2 = 3 \<or> x2 = 4 \<or> x2 = 5 \<or> x2 = 6 \<or> x2 = 7 \<or> x2 = 8 \<or> x2 = 9 \<or> x2 = 10"
    by arith+
  with assms(2) show ?thesis by (elim disjE) (simp_all add: x_round_values)
qed

section \<open>Reference cells\<close>

text \<open>
  C1: a grid cell of the reference table resolves to exactly the tabulated pair with
  \<open>Z_HEIGHT = 33.577\<close>, the literals of the table as they are; this holds for each of the
  nine entries, among them \<open>resolve(6, 6) = (55.519, 53.50, 33.577)\<close>.
\<close>

theorem reference_cells_exact:
  "(reference_points (gx, gy) = Some (x, y) \<longrightarrow>
      get_maze_coordinates gx gy = Inr (x, y, fl 33.577)) \<and>
   get_maze_coordinates 1 1 = Inr (fl 8.039, fl 100.98, fl 33.577) \<and>
   get_maze_coordinates 2 2 = Inr (fl 16.336, fl 92.683, fl 33.577) \<and>
   get_maze_coordinates 6 2 = Inr (fl 55.519, fl 92.683, fl 33.577) \<and>
   get_maze_coordinates 6 6 = Inr (fl 55.519, fl 53.50, fl 33.577) \<and>
   get_maze_coordinates 10 2 = Inr (fl 94.702, fl 92.683, fl 33.577) \<and>
   get_maze_coordinates 11 1 = Inr (fl 102.999, fl 100.98, fl 33.577) \<and>
   get_maze_coordinates 2 10 = Inr (fl 16.336, fl 21.973, fl 33.577) \<and>
   get_maze_coordinates 1 11 = Inr (fl 8.039, fl 6.02, fl 33.577) \<and>
   get_maze_coordinates 11 11 = Inr (fl 102.999, fl 6.02, fl 33.577)"
  by (simp add: get_maze_coordinates_ref [unfolded Z_HEIGHT_def])
     (simp add: get_maze_coordinates_def reference_points_def Z_HEIGHT_def)

theorem reference_cells_exact_witness:
  "reference_points (6, 6) = Some (fl 55.519, fl 53.50) \<and>
   get_maze_coordinates 6 6 = Inr (fl 55.519, fl 53.50, fl 33.577)"
  using reference_cells_exact [of 6 6 "fl 55.519" "fl 53.50"]
  by (simp add: reference_points_def)

section \<open>The accepted domain\<close>

text \<open>
  C2: the resolver fails, with the one error \<open>ValueError\<close> (the spec's OutOfRange), if and
  only if a coordinate is below 0 or above 12; a failing call returns no coordinates, and
  every other call returns a triple. \<open>resolve(13, 5)\<close> and \<open>resolve(5, -1)\<close> fail.
\<close>

theorem out_of_range_iff:
  "((\<exists>e. get_maze_coordinates gx gy = Inl e) = (gx < 0 \<or> 12 < gx \<or> gy < 0 \<or> 12 < gy)) \<and>
   ((get_maze_coordinates gx gy = Inl (ValueError ''Grid coordinates must be between 0 and 12''))
      = (gx < 0 \<or> 12 < gx \<or> gy < 0 \<or> 12 < gy)) \<and>
   ((\<exists>r. get_maze_coordinates gx gy = Inr r) = (0 \<le> gx \<and> gx \<le> 12 \<and> 0 \<le> gy \<and> gy \<le> 12)) \<and>
   get_maze_coordinates 13 5 = Inl (ValueError ''Grid coordinates must be between 0 and 12'') \<and>
   get_maze_coordinates 5 (- 1) = Inl (ValueError ''Grid coordinates must be between 0 and 12'')"
  by (auto simp: get_maze_coordinates_def split: option.splits)

theorem out_of_range_iff_witness:
  "(\<exists>e. get_maze_coordinates 13 5 = Inl e) \<and> (\<exists>e. get_maze_coordinates 5 (- 1) = Inl e) \<and>
   (\<exists>r. get_maze_coordinates 12 0 = Inr r)"
  using out_of_range_iff [of 13 5] out_of_range_iff [of 5 "- 1"] out_of_range_iff [of 12 0]
  by simp

section \<open>Interpolation\<close>

text \<open>
  C3: for an in-range cell that is not a reference cell, in a column other than 1 and 11,
  the returned x-coordinate is \<open>16.336 + (x - 2) * (94.702 - 16.336) / 8\<close> rounded to 3
  decimal places, whatever the row. The formula is evaluated in floats; it gives the same
  value read from left to right and with the step \<open>(94.702 - 16.336) / 8\<close> computed first,
  as the code does.
\<close>

theorem x_interpolation:
  assumes "0 \<le> gx" "gx \<le> 12" "0 \<le> gy" "gy \<le> 12"
    and "reference_points (gx, gy) = None" and "gx \<noteq> 1" "gx \<noteq> 11"
  shows "\<exists>xi yi z. get_maze_coordinates gx gy = Inr (xi, yi, z) \<and>
           xi = py_round (fadd (fl 16.336)
                  (fdiv (fmul (float_of_int (gx - 2)) (fsub (fl 94.702) (fl 16.336)))
                     (float_of_int 8))) 3 \<and>
           xi = py_round (fadd (fl 16.336)
                  (fmul (float_of_int (gx - 2))
                     (fdiv (fsub (fl 94.702) (fl 16.336)) (float_of_int 8)))) 3"
proof -
  have "get_maze_coordinates gx gy =
        Inr (py_round (x_block gx) 3, py_round (y_block gy) 3, Z_HEIGHT)"
    using assms(1-5) by (rule get_maze_coordinates_nonref)
  moreover have "x_block gx = fadd (fl 16.336)
      (fdiv (fmul (float_of_int (gx - 2)) (fsub (fl 94.702) (fl 16.336))) (float_of_int 8))"
    using assms(1,2,6,7) by (rule x_block_interpolation)
  moreover have "x_block gx = fadd (fl 16.336)
      (fmul (float_of_int (gx - 2)) (fdiv (fsub (fl 94.702) (fl 16.336)) (float_of_int 8)))"
    using assms(6,7) by (simp add: x_block_def)
  ultimately show ?thesis by simp
qed

theorem x_interpolation_witness:
  "reference_points (3, 4) = None \<and>
   (\<exists>yi z. get_maze_coordinates 3 4 = Inr (fl 26.132, yi, z)) \<and>
   (\<exists>yi z. get_maze_coordinates 3 9 = Inr (fl 26.132, yi, z))"
proof -
  have n: "reference_points (3, 4) = None" "reference_points (3, 9) = None"
    by (simp_all add: reference_points_def)
  have v: "py_round (fadd (fl 16.336)
      (fdiv (fmul (float_of_int (3 - 2)) (fsub (fl 94.702) (fl 16.336))) (float_of_int 8))) 3
      = fl 26.132"
    by (simp add: float_eval)
  from x_interpolation [of 3 4] x_interpolation [of 3 9] n v show ?thesis by auto
qed

text \<open>
  C4: for an in-range cell that is not a reference cell, in a row other than 1 and 11, the
  returned y-coordinate is \<open>92.683 - (y - 2) * (92.683 - 53.50) / 4\<close> for \<open>y\<close> in \<open>[2, 6]\<close>
  and \<open>53.50 - (y - 6) * (53.50 - 21.973) / 4\<close> for \<open>y\<close> in \<open>(6, 10]\<close>, rounded to 3 decimal
  places; evaluated in floats, from left to right or with the step computed first.
\<close>

theorem y_interpolation:
  assumes "0 \<le> gx" "gx \<le> 12" "0 \<le> gy" "gy \<le> 12"
    and "reference_points (gx, gy) = None" and "gy \<noteq> 1" "gy \<noteq> 11"
  shows "\<exists>xi yi z. get_maze_coordinates gx gy = Inr (xi, yi, z) \<and>
           (2 \<le> gy \<and> gy \<le> 6 \<longrightarrow>
              yi = py_round (fsub (fl 92.683)
                     (fdiv (fmul (float_of_int (gy - 2)) (fsub (fl 92.683) (fl 53.50)))
                        (float_of_int 4))) 3 \<and>
              yi = py_round (fsub (fl 92.683)
                     (fmul (float_of_int (gy - 2))
                        (fdiv (fsub (fl 92.683) (fl 53.50)) (float_of_int 4)))) 3) \<and>
           (6 < gy \<and> gy \<le> 10 \<longrightarrow>
              yi = py_round (fsub (fl 53.50)
                     (fdiv (fmul (float_of_int (gy - 6)) (fsub (fl 53.50) (fl 21.973)))
                        (float_of_int 4))) 3 \<and>
              yi = py_round (fsub (fl 53.50)
                     (fmul (float_of_int (gy - 6))
                        (fdiv (fsub (fl 53.50) (fl 21.973)) (float_of_int 4)))) 3)"
proof -
  have "get_maze_coordinates gx gy =
        Inr (py_round (x_block gx) 3, py_round (y_block gy) 3, Z_HEIGHT)"
    using assms(1-5) by (rule get_maze_coordinates_nonref)
  moreover have "y_block gy = fsub (fl 92.683)
      (fdiv (fmul (float_of_int (gy - 2)) (fsub (fl 92.683) (fl 53.50))) (float_of_int 4))"
    if "gy \<le> 6"
    using assms(3) that assms(6) by (rule y_block_upper)
  moreover have "y_block gy = fsub (fl 92.683)
      (fmul (float_of_int (gy - 2)) (fdiv (fsub (fl 92.683) (fl 53.50)) (float_of_int 4)))"
    if "gy \<le> 6"
    using assms(6,7) that by (simp add: y_block_def)
  moreover have "y_block gy = fsub (fl 53.50)
      (fdiv (fmul (float_of_int (gy - 6)) (fsub (fl 53.50) (fl 21.973))) (float_of_int 4))"
    if "6 < gy"
    using that assms(4,7) by (rule y_block_lower)
  moreover have "y_block gy = fsub (fl 53.50)
      (fmul (float_of_int (gy - 6)) (fdiv (fsub (fl 53.50) (fl 21.973)) (float_of_int 4)))"
    if "6 < gy"
    using assms(6,7) that by (simp add: y_block_def)
  ultimately show ?thesis by simp
qed

theorem y_interpolation_witness:
  "reference_points (3, 4) = None \<and> reference_points (3, 8) = None \<and>
   (\<exists>xi z. get_maze_coordinates 3 4 = Inr (xi, fl 73.091, z)) \<and>
   (\<exists>xi z. get_maze_coordinates 3 8 = Inr (xi, fl 37.736, z))"
proof -
  have n: "reference_points (3, 4) = None" "reference_points (3, 8) = None"
    by (simp_all add: reference_points_def)
  have v: "py_round (fsub (fl 92.683)
      (fdiv (fmul (float_of_int (4 - 2)) (fsub (fl 92.683) (fl 53.50))) (float_of_int 4))) 3
      = fl 73.091"
    "py_round (fsub (fl 53.50)
      (fdiv (fmul (float_of_int (8 - 6)) (fsub (fl 53.50) (fl 21.973))) (float_of_int 4))) 3
      = fl 37.736"
    by (simp_all add: float_eval)
  from y_interpolation [of 3 4] y_interpolation [of 3 8] n v show ?thesis by auto
qed

section \<open>Fixed values\<close>

text \<open>
  C5: in column 1 the x-coordinate is 8.039 and in column 11 it is 102.999, for every valid
  row; in row 1 the y-coordinate is 100.98 and in row 11 it is 6.02, for every valid column.
\<close>

theorem boundary_constants:
  "(0 \<le> gy \<and> gy \<le> 12 \<longrightarrow>
      (\<exists>yi z. get_maze_coordinates 1 gy = Inr (fl 8.039, yi, z)) \<and>
      (\<exists>yi z. get_maze_coordinates 11 gy = Inr (fl 102.999, yi, z))) \<and>
   (0 \<le> gx \<and> gx \<le> 12 \<longrightarrow>
      (\<exists>xi z. get_maze_coordinates gx 1 = Inr (xi, fl 100.98, z)) \<and>
      (\<exists>xi z. get_maze_coordinates gx 11 = Inr (xi, fl 6.02, z)))"
  by (simp add: get_maze_coordinates_uniform x_round_table y_round_table)

theorem boundary_constants_witness:
  "(\<exists>yi z. get_maze_coordinates 1 7 = Inr (fl 8.039, yi, z)) \<and>
   (\<exists>yi z. get_maze_coordinates 11 7 = Inr (fl 102.999, yi, z)) \<and>
   (\<exists>xi z. get_maze_coordinates 4 1 = Inr (xi, fl 100.98, z)) \<and>
   (\<exists>xi z. get_maze_coordinates 4 11 = Inr (xi, fl 6.02, z))"
  using boundary_constants [of 7 4] by simp

text \<open>
  C6: for every in-range cell the third component of the result is the constant
  \<open>Z_HEIGHT = 33.577\<close>, on the table branch and on the interpolation branch.
\<close>

theorem z_is_constant:
  assumes "0 \<le> gx" "gx \<le> 12" "0 \<le> gy" "gy \<le> 12"
  shows "\<exists>xi yi. get_maze_coordinates gx gy = Inr (xi, yi, fl 33.577)"
  using assms by (simp add: get_maze_coordinates_def Z_HEIGHT_def split: option.splits)

theorem z_is_constant_witness:
  "(\<exists>xi yi. get_maze_coordinates 6 6 = Inr (xi, yi, fl 33.577)) \<and>
   (\<exists>xi yi. get_maze_coordinates 0 12 = Inr (xi, yi, fl 33.577))"
  using z_is_constant [of 6 6] z_is_constant [of 0 12] by simp

section \<open>Monotonicity\<close>

text \<open>
  C7: for a fixed row \<open>y\<close> in \<open>[2, 10]\<close> the x-coordinate does not decrease as the column goes
  from 2 to 10, reference cells included.
\<close>

theorem x_monotone:
  assumes "2 \<le> gy" "gy \<le> 10" and "2 \<le> x1" "x1 \<le> x2" "x2 \<le> 10"
  shows "\<exists>a1 b1 c1 a2 b2 c2.
           get_maze_coordinates x1 gy = Inr (a1, b1, c1) \<and>
           get_maze_coordinates x2 gy = Inr (a2, b2, c2) \<and> a1 \<le> a2"
proof -
  from assms have "get_maze_coordinates x1 gy =
      Inr (py_round (x_block x1) 3, py_round (y_block gy) 3, Z_HEIGHT)"
    by (intro get_maze_coordinates_uniform) simp_all
  moreover from assms have "get_maze_coordinates x2 gy =
      Inr (py_round (x_block x2) 3, py_round (y_block gy) 3, Z_HEIGHT)"
    by (intro get_maze_coordinates_uniform) simp_all
  moreover from assms(3-5) have "py_round (x_block x1) 3 \<le> py_round (x_block x2) 3"
    by (rule x_round_mono)
  ultimately show ?thesis by simp
qed

theorem x_monotone_witness:
  "\<exists>a1 b1 c1 a2 b2 c2.
     get_maze_coordinates 5 2 = Inr (a1, b1, c1) \<and>
     get_maze_coordinates 6 2 = Inr (a2, b2, c2) \<and> a1 \<le> a2"
  using x_monotone [of 2 5 6] by simp

section \<open>Span endpoints\<close>

text \<open>
  C8: \<open>(10, 6)\<close> is not a reference cell and \<open>resolve(10, 6) = (94.702, 53.50, 33.577)\<close>: the
  column step is 9.79575 and \<open>16.336 + 8 * 9.79575\<close> is 94.702, the column-10 reference
  value; the row-2-to-row-6 span at \<open>y = 6\<close> is 53.50, the row-6 reference value. Both hold
  already before the rounding to 3 decimal places.
\<close>

theorem resolve_10_6:
  "reference_points (10, 6) = None \<and>
   get_maze_coordinates 10 6 = Inr (fl 94.702, fl 53.50, fl 33.577) \<and>
   fdiv (fsub (fl 94.702) (fl 16.336)) (float_of_int 8) = fl 9.79575 \<and>
   fadd (fl 16.336) (fmul (float_of_int 8) (fl 9.79575)) = fl 94.702 \<and>
   x_block 10 = fl 94.702 \<and> y_block 6 = fl 53.50"
  by (simp add: get_maze_coordinates_def reference_points_def Z_HEIGHT_def
      x_block_def y_block_def float_eval)

section \<open>Rounding\<close>

text \<open>
  C9: on the branch for cells outside the reference table both coordinates are rounded to 3
  decimal places; the fixed values 8.039, 102.999, 100.98 and 6.02 are not changed by that
  rounding, so they reach the caller as tabulated, as in \<open>resolve(1, 5)\<close>.
\<close>

theorem rounding_discipline:
  assumes "0 \<le> gx" "gx \<le> 12" "0 \<le> gy" "gy \<le> 12" and "reference_points (gx, gy) = None"
  shows "\<exists>xi yi z. get_maze_coordinates gx gy = Inr (xi, yi, z) \<and>
           xi = py_round (x_block gx) 3 \<and> yi = py_round (y_block gy) 3 \<and>
           (gx = 1 \<longrightarrow> x_block gx = fl 8.039 \<and> xi = fl 8.039) \<and>
           (gx = 11 \<longrightarrow> x_block gx = fl 102.999 \<and> xi = fl 102.999) \<and>
           (gy = 1 \<longrightarrow> y_block gy = fl 100.98 \<and> yi = fl 100.98) \<and>
           (gy = 11 \<longrightarrow> y_block gy = fl 6.02 \<and> yi = fl 6.02)"
proof -
  have "get_maze_coordinates gx gy =
        Inr (py_round (x_block gx) 3, py_round (y_block gy) 3, Z_HEIGHT)"
    using assms by (rule get_maze_coordinates_nonref)
  moreover have "x_block 1 = fl 8.039" "x_block 11 = fl 102.999"
    by (simp_all add: x_block_def)
  moreover have "y_block 1 = fl 100.98" "y_block 11 = fl 6.02"
    by (simp_all add: y_block_def)
  ultimately show ?thesis using py_round_fixed_values by simp
qed

theorem rounding_discipline_witness:
  "(\<exists>z. get_maze_coordinates 1 5 = Inr (fl 8.039, fl 63.296, z)) \<and>
   (\<exists>z. get_maze_coordinates 11 5 = Inr (fl 102.999, fl 63.296, z)) \<and>
   (\<exists>z. get_maze_coordinates 5 1 = Inr (fl 45.723, fl 100.98, z)) \<and>
   (\<exists>z. get_maze_coordinates 5 11 = Inr (fl 45.723, fl 6.02, z))"
proof -
  have n: "reference_points (1, 5) = None" "reference_points (11, 5) = None"
    "reference_points (5, 1) = None" "reference_points (5, 11) = None"
    by (simp_all add: reference_points_def)
  from rounding_discipline [of 1 5] rounding_discipline [of 11 5]
    rounding_discipline [of 5 1] rounding_discipline [of 5 11] n
  show ?thesis by (auto simp: x_round_table y_round_table)
qed

section \<open>Edge rows and columns\<close>

text \<open>
  C10: every cell of \<open>[0, 12] \<times> [0, 12]\<close> resolves to a triple. Columns 0 and 12 take the
  column line \<open>16.336 + (x - 2) * 9.79575\<close>, row 0 the upper row line
  \<open>92.683 - (y - 2) * 9.79575\<close> and row 12 the lower row line \<open>53.50 - (y - 6) * 7.88175\<close>,
  each rounded to 3 decimal places.
\<close>

theorem edge_extrapolation:
  assumes "0 \<le> gx" "gx \<le> 12" "0 \<le> gy" "gy \<le> 12"
  shows "\<exists>xi yi z. get_maze_coordinates gx gy = Inr (xi, yi, z) \<and>
           (gx = 0 \<or> gx = 12 \<longrightarrow>
              xi = py_round (fadd (fl 16.336) (fmul (float_of_int (gx - 2)) (fl 9.79575))) 3) \<and>
           (gy = 0 \<longrightarrow>
              yi = py_round (fsub (fl 92.683) (fmul (float_of_int (gy - 2)) (fl 9.79575))) 3) \<and>
           (gy = 12 \<longrightarrow>
              yi = py_round (fsub (fl 53.50) (fmul (float_of_int (gy - 6)) (fl 7.88175))) 3)"
proof -
  have "get_maze_coordinates gx gy =
        Inr (py_round (x_block gx) 3, py_round (y_block gy) 3, Z_HEIGHT)"
    using assms by (rule get_maze_coordinates_uniform)
  moreover have
    "py_round (x_block 0) 3 =
       py_round (fadd (fl 16.336) (fmul (float_of_int (0 - 2)) (fl 9.79575))) 3"
    "py_round (x_block 12) 3 =
       py_round (fadd (fl 16.336) (fmul (float_of_int (12 - 2)) (fl 9.79575))) 3"
    by (simp_all add: x_block_def float_eval)
  moreover have
    "py_round (y_block 0) 3 =
       py_round (fsub (fl 92.683) (fmul (float_of_int (0 - 2)) (fl 9.79575))) 3"
    "py_round (y_block 12) 3 =
       py_round (fsub (fl 53.50) (fmul (float_of_int (12 - 6)) (fl 7.88175))) 3"
    by (simp_all add: y_block_def float_eval)
  ultimately show ?thesis by auto
qed

theorem edge_extrapolation_witness:
  "(\<exists>z. get_maze_coordinates 0 0 = Inr (fl (- 3.256), fl 112.275, z)) \<and>
   (\<exists>z. get_maze_coordinates 12 12 = Inr (fl 114.293, fl 6.209, z))"
proof -
  have "py_round (fadd (fl 16.336) (fmul (float_of_int (0 - 2)) (fl 9.79575))) 3 = fl (- 3.256)"
    "py_round (fadd (fl 16.336) (fmul (float_of_int (12 - 2)) (fl 9.79575))) 3 = fl 114.293"
    "py_round (fsub (fl 92.683) (fmul (float_of_int (0 - 2)) (fl 9.79575))) 3 = fl 112.275"
    "py_round (fsub (fl 53.50) (fmul (float_of_int (12 - 6)) (fl 7.88175))) 3 = fl 6.209"
    by (simp_all add: float_eval)
  with edge_extrapolation [of 0 0] edge_extrapolation [of 12 12] show ?thesis by auto
qed

end
